theory Spec2Isabelle
  imports Complex_Main
begin

section \<open>Numbers of the source\<close>

text \<open>
  The dashboard computes with two kinds of numbers. The execution path
  (\<^verbatim>\<open>executeSwap\<close> in \<^verbatim>\<open>lib/web3.ts\<close>) uses \<^verbatim>\<open>bigint\<close>, modelled as \<^typ>\<open>int\<close>; its
  division truncates toward zero and raises \<^verbatim>\<open>RangeError\<close> on a zero divisor. The
  display path (the page component) uses \<^verbatim>\<open>number\<close>, modelled as \<^typ>\<open>real\<close>: the
  arithmetic is the exact one the double-precision operations approximate, so
  rounding error, overflow to \<^verbatim>\<open>Infinity\<close> and \<^verbatim>\<open>NaN\<close> are outside this model.
\<close>

definition bigint_div :: "int \<Rightarrow> int \<Rightarrow> int" where
  "bigint_div a b = (if (a < 0) = (b < 0) then \<bar>a\<bar> div \<bar>b\<bar> else - (\<bar>a\<bar> div \<bar>b\<bar>))"

definition Math_floor :: "real \<Rightarrow> real" where
  "Math_floor x = of_int \<lfloor>x\<rfloor>"

definition Math_round :: "real \<Rightarrow> real" where
  "Math_round x = of_int \<lfloor>x + 1 / 2\<rfloor>"

definition Number_isInteger :: "real \<Rightarrow> bool" where
  "Number_isInteger x = (of_int \<lfloor>x\<rfloor> = x)"

datatype swap_error =
    AmountNotPositive
  | PoolNoLiquidity
  | AmountOutZero
  | RangeError

text \<open>
  \<^const>\<open>AmountNotPositive\<close> is \<^verbatim>\<open>Error("Amount must be a positive number")\<close>,
  \<^const>\<open>PoolNoLiquidity\<close> is \<^verbatim>\<open>Error("Pool has no liquidity")\<close>, \<^const>\<open>AmountOutZero\<close> is
  the error whose message starts \<^verbatim>\<open>Amount out is zero\<close>, and \<^const>\<open>RangeError\<close> is what
  \<^verbatim>\<open>BigInt(x)\<close> raises on a non-integral number and what a \<^verbatim>\<open>bigint\<close> division by
  \<^verbatim>\<open>0n\<close> raises.
\<close>

definition BigInt :: "real \<Rightarrow> swap_error + int" where
  "BigInt x = (if Number_isInteger x then Inr \<lfloor>x\<rfloor> else Inl RangeError)"

definition Number :: "int \<Rightarrow> real" where
  "Number n = of_int n"

section \<open>Display path: AMM math of the page component\<close>

definition FEE_NUM :: real where
  "FEE_NUM = 997"

definition FEE_DEN :: real where
  "FEE_DEN = 1000"

definition getSwapOutput :: "real \<Rightarrow> real \<Rightarrow> real \<Rightarrow> real" where
  "getSwapOutput reserveIn reserveOut amountIn =
     (if amountIn \<le> 0 \<or> reserveIn \<le> 0 \<or> reserveOut \<le> 0 then 0
      else
        let amountInWithFee = (amountIn * FEE_NUM) / FEE_DEN;
            numerator = amountInWithFee * reserveOut;
            denominator = reserveIn + amountInWithFee;
            amountOut = numerator / denominator
        in amountOut)"


definition getImpermanentLossPercent :: "real \<Rightarrow> real" where
  "getImpermanentLossPercent priceChangePct =
     (let p = 1 + priceChangePct / 100
      in if p \<le> 0 then 0
         else
           let hodlValue = (p + 1) / 2;
               lpValue = sqrt p;
               il = (lpValue / hodlValue - 1) * 100
           in il)"

section \<open>Reads from the ledger\<close>

text \<open>
  The values the pool and token contracts return to the reads of one call:
  \<^verbatim>\<open>allowance(signer, pool)\<close> of the input token, \<^verbatim>\<open>reserve0()\<close>, \<^verbatim>\<open>reserve1()\<close>,
  \<^verbatim>\<open>totalSupply()\<close> and \<^verbatim>\<open>balanceOf(wallet)\<close> for the wallet of the call. Transport
  failures are outside the model.
\<close>

record onchain =
  allowance :: int
  reserve0 :: int
  reserve1 :: int
  totalSupply :: int
  balanceOf :: int

section \<open>LP position analysis\<close>

record LPAnalysis =
  lpBalance :: real
  poolSharePct :: real
  underlying0 :: real
  underlying1 :: real

definition analyzeLPPosition :: "string \<Rightarrow> onchain \<Rightarrow> LPAnalysis option" where
  "analyzeLPPosition wallet c =
     (if wallet = [] then None
      else
        let lpBalance = Number (balanceOf c);
            totalSupply = Number (totalSupply c)
        in if lpBalance = 0 \<or> totalSupply = 0
           then Some \<lparr>lpBalance = 0, poolSharePct = 0, underlying0 = 0, underlying1 = 0\<rparr>
           else
             let share = lpBalance / totalSupply;
                 reserve0 = Number (reserve0 c);
                 reserve1 = Number (reserve1 c)
             in Some \<lparr>lpBalance = lpBalance, poolSharePct = share * 100,
                       underlying0 = reserve0 * share, underlying1 = reserve1 * share\<rparr>)"

section \<open>Execution path: executeSwap\<close>

datatype SwapDirection = Dir_0to1 | Dir_1to0

datatype token = FINE5 | FINE6

text \<open>
  The write instructions \<^verbatim>\<open>executeSwap\<close> sends: \<^verbatim>\<open>inToken.approve(POOL_ADDRESS, amount)\<close>,
  \<^verbatim>\<open>pool.swapExact0For1(amountIn, minOut)\<close> and \<^verbatim>\<open>pool.swapExact1For0(amountIn, minOut)\<close>.
\<close>

datatype call =
    approve token int
  | swapExact0For1 int int
  | swapExact1For0 int int

definition FEE_NUM_n :: int where
  "FEE_NUM_n = 997"

definition FEE_DEN_n :: int where
  "FEE_DEN_n = 1000"

text \<open>The locals \<^verbatim>\<open>amountInWithFee\<close>, \<^verbatim>\<open>amountOut\<close>, \<^verbatim>\<open>slippageBps\<close> and \<^verbatim>\<open>minOut\<close>.\<close>

definition exec_amountInWithFee :: "int \<Rightarrow> int" where
  "exec_amountInWithFee amountInUnits = bigint_div (amountInUnits * FEE_NUM_n) FEE_DEN_n"

definition exec_amountOut :: "int \<Rightarrow> int \<Rightarrow> int \<Rightarrow> int" where
  "exec_amountOut reserveIn reserveOut amountInUnits =
     (let amountInWithFee = exec_amountInWithFee amountInUnits;
          numerator = amountInWithFee * reserveOut;
          denominator = reserveIn + amountInWithFee
      in bigint_div numerator denominator)"

definition exec_slippageBps :: "real \<Rightarrow> real" where
  "exec_slippageBps maxSlippagePct = Math_round (maxSlippagePct * 100)"

definition exec_minOut :: "int \<Rightarrow> real \<Rightarrow> swap_error + int" where
  "exec_minOut amountOut maxSlippagePct =
     (case BigInt (10000 - exec_slippageBps maxSlippagePct) of
        Inl e \<Rightarrow> Inl e
      | Inr factor \<Rightarrow> Inr (bigint_div (amountOut * factor) 10000))"

text \<open>
  \<^verbatim>\<open>executeSwap(direction, amountIn, maxSlippagePct)\<close>: the result is the list of write
  instructions sent, in order, and either the error thrown or normal completion.
  \<^verbatim>\<open>Number.isFinite(amountIn)\<close> holds of every real, so the first guard is the sign
  test alone. What the ledger answers to an instruction (a revert, a confirmation) is
  outside the model.
\<close>

definition executeSwap ::
  "SwapDirection \<Rightarrow> real \<Rightarrow> real \<Rightarrow> onchain \<Rightarrow> call list \<times> (swap_error + unit)" where
  "executeSwap direction amountIn maxSlippagePct c =
     (if amountIn \<le> 0 then ([], Inl AmountNotPositive)
      else
        let amountIn1 = (if \<not> Number_isInteger amountIn then Math_floor amountIn else amountIn)
        in case BigInt amountIn1 of
             Inl e \<Rightarrow> ([], Inl e)
           | Inr amountInUnits \<Rightarrow>
               let inToken = (if direction = Dir_0to1 then FINE5 else FINE6);
                   sent = (if allowance c < amountInUnits then [approve inToken amountInUnits] else []);
                   reserveIn = (if direction = Dir_0to1 then reserve0 c else reserve1 c);
                   reserveOut = (if direction = Dir_0to1 then reserve1 c else reserve0 c)
               in if reserveIn = 0 \<or> reserveOut = 0 then (sent, Inl PoolNoLiquidity)
                  else if reserveIn + exec_amountInWithFee amountInUnits = 0 then (sent, Inl RangeError)
                  else
                    let amountOut = exec_amountOut reserveIn reserveOut amountInUnits
                    in if amountOut \<le> 0 then (sent, Inl AmountOutZero)
                       else (case exec_minOut amountOut maxSlippagePct of
                               Inl e \<Rightarrow> (sent, Inl e)
                             | Inr minOut \<Rightarrow>
                                 (sent @ [if direction = Dir_0to1
                                          then swapExact0For1 amountInUnits minOut
                                          else swapExact1For0 amountInUnits minOut],
                                  Inr ())))"

text \<open>Whether an instruction is one of the two swap instructions.\<close>

fun is_swap :: "call \<Rightarrow> bool" where
  "is_swap (approve t n) = False"
| "is_swap (swapExact0For1 n m) = True"
| "is_swap (swapExact1For0 n m) = True"

section \<open>Basic facts about the number model\<close>

lemma bigint_div_nonneg: "0 \<le> a \<Longrightarrow> 0 < b \<Longrightarrow> bigint_div a b = a div b"
  by (simp add: bigint_div_def)

lemma BigInt_of_int: "BigInt (of_int n) = Inr n"
  by (simp add: BigInt_def Number_isInteger_def)

lemma exec_amountInWithFee_div:
  "0 \<le> a \<Longrightarrow> exec_amountInWithFee a = (a * 997) div 1000"
  by (simp add: exec_amountInWithFee_def FEE_NUM_n_def FEE_DEN_n_def bigint_div_nonneg)

lemma exec_amountInWithFee_nonneg: "0 \<le> a \<Longrightarrow> 0 \<le> exec_amountInWithFee a"
  by (simp add: exec_amountInWithFee_div pos_imp_zdiv_nonneg_iff)

lemma exec_amountOut_div:
  assumes "0 \<le> a" "0 < rIn" "0 \<le> rOut"
  shows "exec_amountOut rIn rOut a =
         (exec_amountInWithFee a * rOut) div (rIn + exec_amountInWithFee a)"
  using assms exec_amountInWithFee_nonneg [of a]
  by (simp add: exec_amountOut_def Let_def bigint_div_nonneg)


lemma exec_amountInWithFee_floor:
  assumes "0 \<le> a"
  shows "exec_amountInWithFee a = \<lfloor>real_of_int a * 997 / 1000\<rfloor>"
proof -
  have "\<lfloor>real_of_int (a * 997) / real_of_int 1000\<rfloor> = (a * 997) div 1000"
    by (rule floor_divide_of_int_eq)
  then show ?thesis using assms by (simp add: exec_amountInWithFee_div)
qed

lemma exec_amountOut_floor:
  assumes "0 \<le> a" "0 < rIn" "0 \<le> rOut"
  shows "exec_amountOut rIn rOut a =
     \<lfloor>real_of_int (exec_amountInWithFee a) * real_of_int rOut
        / real_of_int (rIn + exec_amountInWithFee a)\<rfloor>"
proof -
  have "\<lfloor>real_of_int (exec_amountInWithFee a * rOut) / real_of_int (rIn + exec_amountInWithFee a)\<rfloor>
        = (exec_amountInWithFee a * rOut) div (rIn + exec_amountInWithFee a)"
    by (rule floor_divide_of_int_eq)
  then show ?thesis using assms by (simp add: exec_amountOut_div)
qed













lemma BigInt_amountIn:
  "BigInt (if \<not> Number_isInteger amountIn then Math_floor amountIn else amountIn)
   = Inr \<lfloor>amountIn\<rfloor>"
  by (simp add: BigInt_def Number_isInteger_def Math_floor_def)

lemma exec_minOut_eq:
  "exec_minOut amountOut s
   = Inr (bigint_div (amountOut * (10000 - \<lfloor>s * 100 + 1 / 2\<rfloor>)) 10000)"
proof -
  have "10000 - exec_slippageBps s = real_of_int (10000 - \<lfloor>s * 100 + 1 / 2\<rfloor>)"
    by (simp add: exec_slippageBps_def Math_round_def)
  then have "BigInt (10000 - exec_slippageBps s) = Inr (10000 - \<lfloor>s * 100 + 1 / 2\<rfloor>)"
    by (simp only: BigInt_of_int)
  then show ?thesis by (simp add: exec_minOut_def)
qed

lemma slippageBps_range:
  assumes "0 < s" "s \<le> 100"
  shows "0 \<le> \<lfloor>s * 100 + 1 / 2\<rfloor>" "\<lfloor>s * 100 + 1 / 2\<rfloor> \<le> 10000"
proof -
  show "0 \<le> \<lfloor>s * 100 + 1 / 2\<rfloor>" using assms by simp
  have "s * 100 + 1 / 2 < 10001" using assms by simp
  then have "\<lfloor>s * 100 + 1 / 2\<rfloor> < 10001" by (simp only: floor_less_iff of_int_numeral)
  then show "\<lfloor>s * 100 + 1 / 2\<rfloor> \<le> 10000" by simp
qed


lemma sqrt_le_mean: "0 < p \<Longrightarrow> sqrt p \<le> (p + 1) / 2"
  using arith_geo_mean_sqrt [of p 1] by simp

section \<open>The execution quote\<close>

text \<open>
  C1. The quote of the execution path is the two-step floored integer computation:
  \<open>amountInWithFee = floor(amountIn \<times> 997 / 1000)\<close> and then
  \<open>amountOut = floor(amountInWithFee \<times> reserveOut / (reserveIn + amountInWithFee))\<close>; for
  reserveIn = 101131, reserveOut = 99493 and amountIn = 100 the result is exactly 97.
\<close>

theorem exec_quote_two_step_floor:
  assumes "0 \<le> amountInUnits" "0 < reserveIn" "0 \<le> reserveOut"
  shows "exec_amountInWithFee amountInUnits = \<lfloor>real_of_int amountInUnits * 997 / 1000\<rfloor>
       \<and> exec_amountOut reserveIn reserveOut amountInUnits =
           \<lfloor>real_of_int (exec_amountInWithFee amountInUnits) * real_of_int reserveOut
              / real_of_int (reserveIn + exec_amountInWithFee amountInUnits)\<rfloor>
       \<and> exec_amountOut 101131 99493 100 = 97"
proof -
  have "exec_amountOut 101131 99493 100 = 97"
    by (simp add: exec_amountOut_def exec_amountInWithFee_def FEE_NUM_n_def FEE_DEN_n_def
        bigint_div_def)
  then show ?thesis
    using exec_amountInWithFee_floor [OF assms(1)] exec_amountOut_floor [OF assms] by simp
qed

theorem exec_quote_two_step_floor_witness:
  "(0::int) \<le> 100 \<and> (0::int) < 101131 \<and> (0::int) \<le> 99493
   \<and> exec_amountInWithFee 100 = 99 \<and> exec_amountOut 101131 99493 100 = 97"
proof -
  have "exec_amountInWithFee 100 = \<lfloor>real_of_int 100 * 997 / 1000\<rfloor>"
    using exec_quote_two_step_floor [of 100 101131 99493] by simp
  moreover have "\<lfloor>real_of_int 100 * 997 / 1000\<rfloor> = (99::int)" by simp
  ultimately show ?thesis
    using exec_quote_two_step_floor [of 100 101131 99493] by simp
qed

section \<open>Conservation of the pool invariant\<close>



section \<open>Monotonicity of the quote\<close>



section \<open>Execution quote against display quote\<close>



section \<open>Slippage tolerance in the execution path\<close>




section \<open>The minimum-output bound\<close>

text \<open>
  C4 (as amended). For every amountOut \<open>\<ge> 0\<close> and tolerance in (0, 100], the bound
  \<open>minOut = floor(amountOut \<times> (10000 - slippageBps) / 10000)\<close> satisfies
  \<open>minOut \<le> amountOut\<close>, is 0 when the tolerance is 100, and is 0 exactly when
  \<open>amountOut \<times> (10000 - slippageBps) < 10000\<close>, which also happens for small quotes at
  tolerances below 100; amountOut = 97 with tolerance 1.0 gives 96.
\<close>

theorem minOut_bounds:
  assumes "0 \<le> amountOut" "0 < s" "s \<le> 100"
  shows "(\<exists>minOut. exec_minOut amountOut s = Inr minOut
       \<and> minOut = \<lfloor>real_of_int amountOut * (10000 - exec_slippageBps s) / 10000\<rfloor>
       \<and> minOut \<le> amountOut
       \<and> (s = 100 \<longrightarrow> minOut = 0)
       \<and> (minOut = 0 \<longleftrightarrow> real_of_int amountOut * (10000 - exec_slippageBps s) < 10000))
   \<and> exec_minOut 97 1 = Inr 96"
proof -
  let ?bps = "\<lfloor>s * 100 + 1 / 2\<rfloor>"
  let ?f = "10000 - ?bps"
  let ?m = "(amountOut * ?f) div 10000"
  have bps: "0 \<le> ?bps" "?bps \<le> 10000" using slippageBps_range [OF assms(2,3)] by simp_all
  then have f: "0 \<le> ?f" "?f \<le> 10000" by simp_all
  have nn: "0 \<le> amountOut * ?f" using assms f by simp
  have m: "exec_minOut amountOut s = Inr ?m"
    using nn by (simp add: exec_minOut_eq bigint_div_nonneg)
  have freal: "10000 - exec_slippageBps s = real_of_int ?f"
    by (simp add: exec_slippageBps_def Math_round_def)
  have "\<lfloor>real_of_int (amountOut * ?f) / real_of_int 10000\<rfloor> = ?m"
    by (rule floor_divide_of_int_eq)
  then have fl: "?m = \<lfloor>real_of_int amountOut * (10000 - exec_slippageBps s) / 10000\<rfloor>"
    by (simp add: freal)
  have "amountOut * ?f \<le> amountOut * 10000" using assms f by (simp add: mult_left_mono)
  then have "?m \<le> (amountOut * 10000) div 10000" by (rule zdiv_mono1) simp
  then have le: "?m \<le> amountOut" by simp
  have hundred: "?m = 0" if "s = 100" using that by simp
  have mnn: "0 \<le> ?m" using nn by (simp add: pos_imp_zdiv_nonneg_iff)
  have "0 < ?m \<longleftrightarrow> 10000 \<le> amountOut * ?f"
    by (rule pos_imp_zdiv_pos_iff) simp
  with mnn have "?m = 0 \<longleftrightarrow> amountOut * ?f < 10000" by linarith
  also have "\<dots> \<longleftrightarrow> real_of_int (amountOut * ?f) < real_of_int 10000"
    by (simp only: of_int_less_iff)
  also have "\<dots> \<longleftrightarrow> real_of_int amountOut * (10000 - exec_slippageBps s) < 10000"
    by (simp add: freal)
  finally have zero:
    "?m = 0 \<longleftrightarrow> real_of_int amountOut * (10000 - exec_slippageBps s) < 10000" .
  have "exec_minOut 97 1 = Inr 96"
    by (simp add: exec_minOut_eq bigint_div_def)
  with m fl le hundred zero show ?thesis by blast
qed

theorem minOut_bounds_witness:
  "(0::int) \<le> 5 \<and> (0::real) < 100 \<and> (100::real) \<le> 100 \<and> exec_minOut 5 100 = Inr 0"
  using minOut_bounds [of 5 100] by auto

text \<open>
  A quote of 1 at a tolerance of 1 percent (100 basis points, not 10000) has
  \<open>minOut = 0\<close>; \<open>executeSwap\<close> reaches it with amountIn = 2 against reserves 100 and 200.
\<close>

theorem minOut_zero_counterexample:
  "exec_minOut 1 1 = Inr 0 \<and> exec_slippageBps 1 = 100
   \<and> executeSwap Dir_0to1 2 1
        \<lparr>allowance = 2, reserve0 = 100, reserve1 = 200, totalSupply = 0, balanceOf = 0\<rparr>
      = ([swapExact0For1 2 0], Inr ())"
  by (simp add: executeSwap_def exec_amountOut_def exec_amountInWithFee_def FEE_NUM_n_def
      FEE_DEN_n_def bigint_div_def exec_minOut_def exec_slippageBps_def Math_round_def
      BigInt_def Number_isInteger_def Math_floor_def)

section \<open>Degenerate inputs\<close>

text \<open>
  C6. With amountIn \<open>\<le> 0\<close> or reserveIn \<open>\<le> 0\<close> or reserveOut \<open>\<le> 0\<close> the display quote
  returns 0; \<open>executeSwap\<close>, reading a zero reserve, fails with the no-liquidity error
  and has sent no swap instruction.
\<close>

theorem degenerate_inputs_split:
  "(amountIn \<le> 0 \<or> reserveIn \<le> 0 \<or> reserveOut \<le> 0 \<longrightarrow>
      getSwapOutput reserveIn reserveOut amountIn = 0)
   \<and> (0 < amt \<and> (reserve0 c = 0 \<or> reserve1 c = 0) \<longrightarrow>
        snd (executeSwap direction amt maxSlippagePct c) = Inl PoolNoLiquidity
        \<and> filter is_swap (fst (executeSwap direction amt maxSlippagePct c)) = [])"
proof -
  have "snd (executeSwap direction amt maxSlippagePct c) = Inl PoolNoLiquidity
        \<and> filter is_swap (fst (executeSwap direction amt maxSlippagePct c)) = []"
    if "0 < amt" "reserve0 c = 0 \<or> reserve1 c = 0"
    using that by (auto simp add: executeSwap_def BigInt_amountIn Let_def)
  then show ?thesis by (simp add: getSwapOutput_def)
qed

theorem degenerate_inputs_split_witness:
  "getSwapOutput 0 99493 100 = 0
   \<and> snd (executeSwap Dir_0to1 100 1
        \<lparr>allowance = 0, reserve0 = 0, reserve1 = 99493, totalSupply = 0, balanceOf = 0\<rparr>)
      = Inl PoolNoLiquidity
   \<and> filter is_swap (fst (executeSwap Dir_0to1 100 1
        \<lparr>allowance = 0, reserve0 = 0, reserve1 = 99493, totalSupply = 0, balanceOf = 0\<rparr>)) = []"
  using degenerate_inputs_split [of 100 0 99493 100
      "\<lparr>allowance = 0, reserve0 = 0, reserve1 = 99493, totalSupply = 0, balanceOf = 0\<rparr>"
      Dir_0to1 1]
  by simp

section \<open>Impermanent loss\<close>

text \<open>
  C7. \<open>getImpermanentLossPercent 0 = 0\<close>; whenever \<open>p = 1 + priceChangePct / 100 > 0\<close> the
  result is \<open>(sqrt p / ((p + 1) / 2) - 1) \<times> 100\<close> and is \<open>\<le> 0\<close>; and for
  \<open>priceChangePct \<le> -100\<close> the result is 0.
\<close>

theorem impermanent_loss_nonpositive:
  "getImpermanentLossPercent 0 = 0
   \<and> (0 < 1 + x / 100 \<longrightarrow>
        getImpermanentLossPercent x
          = (sqrt (1 + x / 100) / (((1 + x / 100) + 1) / 2) - 1) * 100
        \<and> getImpermanentLossPercent x \<le> 0)
   \<and> (x \<le> - 100 \<longrightarrow> getImpermanentLossPercent x = 0)"
proof -
  have a: "getImpermanentLossPercent 0 = 0" by (simp add: getImpermanentLossPercent_def)
  have b: "getImpermanentLossPercent x
             = (sqrt (1 + x / 100) / (((1 + x / 100) + 1) / 2) - 1) * 100
        \<and> getImpermanentLossPercent x \<le> 0" if p: "0 < 1 + x / 100"
  proof -
    let ?p = "1 + x / 100"
    have eq: "getImpermanentLossPercent x = (sqrt ?p / ((?p + 1) / 2) - 1) * 100"
      using p by (simp add: getImpermanentLossPercent_def Let_def)
    have "sqrt ?p \<le> (?p + 1) / 2" using p by (rule sqrt_le_mean)
    moreover have "0 < (?p + 1) / 2" using p by simp
    ultimately have "sqrt ?p / ((?p + 1) / 2) \<le> 1" by (simp only: divide_le_eq_1_pos)
    then have "(sqrt ?p / ((?p + 1) / 2) - 1) * 100 \<le> 0" by simp
    with eq show ?thesis by simp
  qed
  have c: "getImpermanentLossPercent x = 0" if "x \<le> - 100"
    using that by (simp add: getImpermanentLossPercent_def Let_def)
  from a b c show ?thesis by blast
qed

theorem impermanent_loss_nonpositive_witness:
  "getImpermanentLossPercent 300 = - 20 \<and> getImpermanentLossPercent (- 150) = 0"
  using impermanent_loss_nonpositive [of 300] impermanent_loss_nonpositive [of "- 150"]
  by simp

section \<open>Price impact\<close>



section \<open>LP position analysis: the degenerate case\<close>

text \<open>
  C9. For every pair of reserves, when lpBalance = 0 or totalSupply = 0 the analysis
  returns the all-zero result; the quotient lpBalance / totalSupply is formed only in
  the other case, where totalSupply is not zero.
\<close>

theorem analyzeLP_degenerate:
  assumes "wallet \<noteq> []"
  shows "(balanceOf c = 0 \<or> totalSupply c = 0 \<longrightarrow>
           analyzeLPPosition wallet c
             = Some \<lparr>lpBalance = 0, poolSharePct = 0, underlying0 = 0, underlying1 = 0\<rparr>)
       \<and> (balanceOf c \<noteq> 0 \<and> totalSupply c \<noteq> 0 \<longrightarrow>
           analyzeLPPosition wallet c
             = Some \<lparr>lpBalance = Number (balanceOf c),
                     poolSharePct = Number (balanceOf c) / Number (totalSupply c) * 100,
                     underlying0 =
                       Number (reserve0 c) * (Number (balanceOf c) / Number (totalSupply c)),
                     underlying1 =
                       Number (reserve1 c) * (Number (balanceOf c) / Number (totalSupply c))\<rparr>
           \<and> Number (totalSupply c) \<noteq> 0)"
  using assms by (simp add: analyzeLPPosition_def Number_def Let_def)

theorem analyzeLP_degenerate_witness:
  "''0xabc'' \<noteq> []
   \<and> analyzeLPPosition ''0xabc''
       \<lparr>allowance = 0, reserve0 = 101131, reserve1 = 99493, totalSupply = 1000, balanceOf = 0\<rparr>
     = Some \<lparr>lpBalance = 0, poolSharePct = 0, underlying0 = 0, underlying1 = 0\<rparr>"
  using analyzeLP_degenerate [of "''0xabc''"
      "\<lparr>allowance = 0, reserve0 = 101131, reserve1 = 99493, totalSupply = 1000, balanceOf = 0\<rparr>"]
  by simp

end
